theory Spec2Isabelle
  imports Complex_Main "HOL-Library.Word"
begin

section \<open>JavaScript values used by the cards\<close>

text \<open>
  A JavaScript string is a sequence of UTF-16 code units. The literals of
  \<^verbatim>\<open>src/ui/ui.tsx\<close> that contain non-ASCII text are written out as their code
  units. Property names, selectors and event names are fixed ASCII identifiers of the
  source and are kept as HOL strings.

  A payload number arrives through JSON, so it is a finite value. The step cursor is only
  compared, never computed with, and is modelled as a rational. The two glyph counts of an
  SEO task enter a subtraction; they are modelled as whole numbers, on which the
  subtraction of the source is exact (a fractional count would go through the rounding of
  IEEE doubles, which is outside this model). An optional field is an \<open>option\<close>
  (\<open>None\<close> is \<^verbatim>\<open>undefined\<close>).
\<close>

type_synonym jsstring = "16 word list"

datatype js_error = RangeError

text \<open>\<^verbatim>\<open>x || d\<close> on an optional number: \<^verbatim>\<open>undefined\<close> and \<^verbatim>\<open>0\<close> are falsy.\<close>

definition num_or :: "rat option \<Rightarrow> rat \<Rightarrow> rat" where
  "num_or x d = (case x of None \<Rightarrow> d | Some v \<Rightarrow> if v = 0 then d else v)"

text \<open>\<^verbatim>\<open>x || d\<close> on an optional string: \<^verbatim>\<open>undefined\<close> and \<^verbatim>\<open>""\<close> are falsy.\<close>

definition str_or :: "jsstring option \<Rightarrow> jsstring \<Rightarrow> jsstring" where
  "str_or x d = (case x of None \<Rightarrow> d | Some s \<Rightarrow> if s = [] then d else s)"

text \<open>The same on an optional whole number.\<close>

definition int_or :: "int option \<Rightarrow> int \<Rightarrow> int" where
  "int_or x d = (case x of None \<Rightarrow> d | Some v \<Rightarrow> if v = 0 then d else v)"

text \<open>
  \<^verbatim>\<open>String.prototype.repeat(count)\<close> for a whole-number count: a negative count raises
  \<^verbatim>\<open>RangeError\<close>, any other count gives that many copies. (An engine also raises
  \<^verbatim>\<open>RangeError\<close> when the result would exceed its longest string; the counts that
  occur below with a result are at most 5.)
\<close>

definition repeat :: "jsstring \<Rightarrow> int \<Rightarrow> js_error + jsstring" where
  "repeat s count =
     (if count < 0 then Inl RangeError else Inr (concat (replicate (nat count) s)))"


section \<open>Progress tracker\<close>

text \<open>
  The same two lines occur in \<^verbatim>\<open>SEOPlannerCard\<close>, \<^verbatim>\<open>SiteReportCard\<close> and
  \<^verbatim>\<open>ReportProgressCard\<close>:
  \<^verbatim>\<open>
  const isActive = (props.active_step || 1) === idx + 1;
  const isDone = (props.active_step || 1) > idx + 1;
  ... isDone ? "done-look" : isActive ? "active-look" : "pending-look"
  \<close>
  inside \<^verbatim>\<open>steps.map((step, idx) => ...)\<close>, shown only while
  \<^verbatim>\<open>props.status === "loading" && steps.length > 0\<close>.
\<close>

datatype step_state = Pending | Active | Done

datatype load_status = Loading | Finished | Failed

definition stepState :: "rat option \<Rightarrow> nat \<Rightarrow> step_state" where
  "stepState active_step idx =
     (let isActive = (num_or active_step 1 = of_nat idx + 1);
          isDone = (num_or active_step 1 > of_nat idx + 1)
      in if isDone then Done else if isActive then Active else Pending)"

definition renderSteps :: "jsstring list \<Rightarrow> rat option \<Rightarrow> (step_state \<times> jsstring) list" where
  "renderSteps steps active_step =
     map (\<lambda>(idx, step). (stepState active_step idx, step)) (enumerate 0 steps)"

definition progressSection ::
  "load_status \<Rightarrow> jsstring list option \<Rightarrow> rat option \<Rightarrow> (step_state \<times> jsstring) list option" where
  "progressSection status steps_prop active_step =
     (let steps = (case steps_prop of None \<Rightarrow> [] | Some xs \<Rightarrow> xs)
      in if status = Loading \<and> length steps > 0
         then Some (renderSteps steps active_step) else None)"


section \<open>SEO task scale and fix action\<close>

text \<open>
  \<^verbatim>\<open>
  <span>... {F.repeat(task.impact || 0)}{E.repeat(5 - (task.impact || 0))}</span>
  <span>... {F.repeat(task.difficulty || 0)}{E.repeat(5 - (task.difficulty || 0))}</span>
  \<close>
  where \<^verbatim>\<open>F\<close> is the one-glyph literal U+2605 (filled star) and \<^verbatim>\<open>E\<close> is U+2606 (empty star).
  Only the fields of \<^verbatim>\<open>SEOTask\<close> that these lines and the fix button read are kept.
\<close>

datatype fix_action = Article | Link | NoFix

record seo_task =
  category :: "jsstring option"
  issue_type :: "jsstring option"
  title :: "jsstring option"
  impact :: "int option"
  difficulty :: "int option"
  fix_action :: "fix_action option"
  fix_prompt :: "jsstring option"

definition filledGlyph :: jsstring where
  "filledGlyph = [0x2605]"

definition emptyGlyph :: jsstring where
  "emptyGlyph = [0x2606]"

definition renderScale :: "int option \<Rightarrow> js_error + jsstring" where
  "renderScale v =
     (case repeat filledGlyph (int_or v 0) of
        Inl e \<Rightarrow> Inl e
      | Inr filled \<Rightarrow>
          (case repeat emptyGlyph (5 - int_or v 0) of
             Inl e \<Rightarrow> Inl e
           | Inr hollow \<Rightarrow> Inr (filled @ hollow)))"

text \<open>The two spans of one task row; an exception in the first aborts the render.\<close>

definition renderTaskScales :: "seo_task \<Rightarrow> js_error + (jsstring \<times> jsstring)" where
  "renderTaskScales task =
     (case renderScale (impact task) of
        Inl e \<Rightarrow> Inl e
      | Inr i \<Rightarrow> (case renderScale (difficulty task) of
                   Inl e \<Rightarrow> Inl e
                 | Inr d \<Rightarrow> Inr (i, d)))"

text \<open>
  The click handler of the fix button (shown when \<^verbatim>\<open>task.fix_action === "article"\<close>):
  \<^verbatim>\<open>
  const chatMessage = task.fix_prompt || `<prefix>${task.title}<suffix>`;
  new CustomEvent("copilot:send", { detail: { message: chatMessage, intent: "article_task",
    task_info: { issue_type: task.issue_type, category: task.category, title: task.title } } })
  \<close>
\<close>

record task_info =
  info_issue_type :: "jsstring option"
  info_category :: "jsstring option"
  info_title :: "jsstring option"

record send_detail =
  message :: jsstring
  intent :: string
  info :: task_info

definition templateString :: "jsstring option \<Rightarrow> jsstring" where
  "templateString x =
     (case x of None \<Rightarrow> [0x75, 0x6E, 0x64, 0x65, 0x66, 0x69, 0x6E, 0x65, 0x64] | Some s \<Rightarrow> s)"

definition chatMessage :: "seo_task \<Rightarrow> jsstring" where
  "chatMessage task =
     str_or (fix_prompt task)
       ([0x9488, 0x5BF9, 0x22] @ templateString (title task) @
        [0x22, 0x95EE, 0x9898, 0xFF0C, 0x521B, 0x5EFA, 0x76F8, 0x5173, 0x5185, 0x5BB9,
         0x8FDB, 0x884C, 0x4F18, 0x5316, 0x3002])"

definition fixActionDetail :: "seo_task \<Rightarrow> send_detail" where
  "fixActionDetail task =
     \<lparr> message = chatMessage task,
       intent = ''article_task'',
       info = \<lparr> info_issue_type = issue_type task,
                 info_category = category task,
                 info_title = title task \<rparr> \<rparr>"


section \<open>The host environment and the effects of a bridge\<close>

text \<open>
  The bridges act on \<^verbatim>\<open>window\<close> and \<^verbatim>\<open>document\<close>. The host is a record of what the
  probes find; a bridge returns the list of the calls it made, in order.
  A global \<^verbatim>\<open>win[fn]\<close> with \<^verbatim>\<open>typeof win[fn] === "function"\<close> is \<open>Some b\<close>, where \<open>b\<close>
  says whether calling it returns or throws; anything else is \<open>None\<close>.
\<close>

datatype fn_behaviour = Returns | Throws

record form_el =
  has_submit_button :: bool
  has_nonplain_button :: bool
  has_requestSubmit :: bool

record input_el =
  tagName :: string
  closest_form :: "form_el option"

record host =
  globals :: "string \<Rightarrow> fn_behaviour option"
  querySelector :: "string \<Rightarrow> input_el option"
  page_submit_button :: bool
  textarea_value_setter :: bool
  input_value_setter :: bool
  stream_submit :: "fn_behaviour option"

datatype js_arg = Text jsstring | Decision bool

record chat_message =
  role :: string
  mtype :: string
  content :: jsstring

datatype button = FormSubmitButton | FormNonPlainButton | PageSubmitButton

datatype effect =
    CallGlobal string js_arg
  | DispatchWindowEvent string js_arg
  | SetterCall string jsstring
  | AssignValue string jsstring
  | DispatchInputEvent string string
  | SetTimeout nat string
  | StreamSubmit "chat_message list"

datatype deferred_effect =
    Click button
  | RequestSubmit
  | FormSubmit
  | KeyboardEvent string

text \<open>
  \<^verbatim>\<open>
  for (const fn of fns) {
    if (typeof win[fn] === "function") {
      try { win[fn](arg); return; } catch {}
    }
  }
  \<close>
  The result is the calls made and whether the enclosing function has returned.
\<close>

fun callFirst :: "host \<Rightarrow> string list \<Rightarrow> js_arg \<Rightarrow> effect list \<times> bool" where
  "callFirst h [] arg = ([], False)"
| "callFirst h (fn # fns) arg =
     (case globals h fn of
        None \<Rightarrow> callFirst h fns arg
      | Some Returns \<Rightarrow> ([CallGlobal fn arg], True)
      | Some Throws \<Rightarrow> (let (es, returned) = callFirst h fns arg
                       in (CallGlobal fn arg # es, returned)))"


section \<open>Action Bridge\<close>

text \<open>
  \<^verbatim>\<open>sendMessage\<close> is defined twice in the source, in \<^verbatim>\<open>ArticleClarifyCard\<close> and in
  \<^verbatim>\<open>MCPWorkflowCard\<close>, with the same statements in the same order; one definition
  models both.
\<close>

definition globalFns :: "string list" where
  "globalFns = [''__LANGGRAPH_SEND_MESSAGE__'', ''__LANGGRAPH_SEND__'', ''sendMessage'', ''sendChatMessage'']"

definition selectors :: "string list" where
  "selectors = [''textarea'', ''input[type=\"text\"]'']"

text \<open>
  The loop over the selectors: the first element found has its value set (through the
  prototype's setter when there is one), gets the two notifications, and the submit step
  is scheduled 50 ms later; then the function returns.
\<close>

fun domInject :: "host \<Rightarrow> string list \<Rightarrow> jsstring \<Rightarrow> effect list" where
  "domInject h [] text = []"
| "domInject h (sel # sels) text =
     (case querySelector h sel of
        None \<Rightarrow> domInject h sels text
      | Some input \<Rightarrow>
          [if (if tagName input = ''TEXTAREA'' then textarea_value_setter h
               else input_value_setter h)
           then SetterCall sel text else AssignValue sel text,
           DispatchInputEvent sel ''input'',
           DispatchInputEvent sel ''change'',
           SetTimeout 50 sel])"

text \<open>The callback given to \<^verbatim>\<open>setTimeout\<close>, for the element \<open>input\<close>.\<close>

definition submitLater :: "host \<Rightarrow> input_el \<Rightarrow> deferred_effect list" where
  "submitLater h input =
     (let form = closest_form input;
          submitBtn =
            (if (case form of None \<Rightarrow> False | Some f \<Rightarrow> has_submit_button f)
               then Some FormSubmitButton
             else if (case form of None \<Rightarrow> False | Some f \<Rightarrow> has_nonplain_button f)
               then Some FormNonPlainButton
             else if page_submit_button h then Some PageSubmitButton
             else None)
      in case submitBtn of
           Some b \<Rightarrow> [Click b]
         | None \<Rightarrow>
             (case form of
                Some f \<Rightarrow> [if has_requestSubmit f then RequestSubmit else FormSubmit]
              | None \<Rightarrow> [KeyboardEvent ''keydown'', KeyboardEvent ''keypress'',
                          KeyboardEvent ''keyup'']))"

definition sendMessage :: "host \<Rightarrow> jsstring \<Rightarrow> effect list" where
  "sendMessage h text =
     (let (calls, returned) = callFirst h globalFns (Text text)
      in if returned then calls
         else calls @ [DispatchWindowEvent ''langgraph:send'' (Text text)]
                    @ domInject h selectors text)"


section \<open>Resume Bridge\<close>

definition resumeFns :: "string list" where
  "resumeFns = [''resumeThread'', ''resume'', ''sendResume'']"

definition confirmText :: jsstring where
  "confirmText = [0x786E, 0x8BA4]"

definition cancelText :: jsstring where
  "cancelText = [0x53D6, 0x6D88]"

text \<open>
  \<^verbatim>\<open>resumeInterrupt(value)\<close> is only called as \<^verbatim>\<open>resumeInterrupt({ confirmed: b })\<close>
  (\<^verbatim>\<open>handleConfirm\<close>, \<^verbatim>\<open>handleCancel\<close>); the value is modelled by \<open>b\<close>.
\<close>

definition resumeInterrupt :: "host \<Rightarrow> bool \<Rightarrow> effect list" where
  "resumeInterrupt h confirmed =
     (let (calls1, returned1) = callFirst h [''__LANGGRAPH_RESUME__''] (Decision confirmed)
      in if returned1 then calls1
         else
           (let (calls2, returned2) = callFirst h resumeFns (Decision confirmed)
            in if returned2 then calls1 @ calls2
               else calls1 @ calls2
                    @ [DispatchWindowEvent ''langgraph:resume'' (Decision confirmed)]
                    @ sendMessage h (if confirmed then confirmText else cancelText)))"

definition handleConfirm :: "host \<Rightarrow> effect list" where
  "handleConfirm h = resumeInterrupt h True"

definition handleCancel :: "host \<Rightarrow> effect list" where
  "handleCancel h = resumeInterrupt h False"


section \<open>JSON text of strings and flat objects\<close>

text \<open>
  \<^verbatim>\<open>JSON.stringify\<close> is a builtin; it is modelled after ECMAScript's
  \<^verbatim>\<open>QuoteJSONString\<close> and \<^verbatim>\<open>SerializeJSONObject\<close> (no indentation): the two-character
  escapes for backspace, tab, line feed, form feed, carriage return, the quotation mark
  and the backslash; a six-character lower-case \<^verbatim>\<open>\uXXXX\<close> escape for the other code
  units below U+0020 and for unpaired surrogates; every other code unit as it is.
\<close>

definition isLeadSurrogate :: "16 word \<Rightarrow> bool" where
  "isLeadSurrogate c = (0xD800 \<le> c \<and> c \<le> 0xDBFF)"

definition isTrailSurrogate :: "16 word \<Rightarrow> bool" where
  "isTrailSurrogate c = (0xDC00 \<le> c \<and> c \<le> 0xDFFF)"

definition hexDigit :: "nat \<Rightarrow> 16 word" where
  "hexDigit d = (if d < 10 then of_nat (48 + d) else of_nat (87 + d))"

definition unicodeEscape :: "16 word \<Rightarrow> jsstring" where
  "unicodeEscape c =
     (let n = unat c
      in [0x5C, 0x75, hexDigit (n div 4096), hexDigit (n div 256 mod 16),
          hexDigit (n div 16 mod 16), hexDigit (n mod 16)])"

definition quoteUnit :: "16 word \<Rightarrow> jsstring" where
  "quoteUnit c =
     (if c = 0x08 then [0x5C, 0x62]
      else if c = 0x09 then [0x5C, 0x74]
      else if c = 0x0A then [0x5C, 0x6E]
      else if c = 0x0C then [0x5C, 0x66]
      else if c = 0x0D then [0x5C, 0x72]
      else if c = 0x22 then [0x5C, 0x22]
      else if c = 0x5C then [0x5C, 0x5C]
      else if c < 0x20 then unicodeEscape c
      else [c])"

fun quoteChars :: "jsstring \<Rightarrow> jsstring" where
  "quoteChars [] = []"
| "quoteChars [c] =
     (if isLeadSurrogate c \<or> isTrailSurrogate c then unicodeEscape c else quoteUnit c)"
| "quoteChars (c # d # cs) =
     (if isLeadSurrogate c then
        (if isTrailSurrogate d then c # d # quoteChars cs
         else unicodeEscape c @ quoteChars (d # cs))
      else if isTrailSurrogate c then unicodeEscape c @ quoteChars (d # cs)
      else quoteUnit c @ quoteChars (d # cs))"

definition quoteJSONString :: "jsstring \<Rightarrow> jsstring" where
  "quoteJSONString s = 0x22 # quoteChars s @ [0x22]"

text \<open>An object whose members are strings, in insertion order; an array of strings.\<close>

fun joinComma :: "jsstring list \<Rightarrow> jsstring" where
  "joinComma [] = []"
| "joinComma [x] = x"
| "joinComma (x # y # ys) = x @ 0x2C # joinComma (y # ys)"

definition stringifyObject :: "(jsstring \<times> jsstring) list \<Rightarrow> jsstring" where
  "stringifyObject members =
     0x7B # joinComma (map (\<lambda>(k, v). quoteJSONString k @ 0x3A # quoteJSONString v) members)
     @ [0x7D]"


text \<open>
  Modelled from the spec: the reader of the outbound encoding (``a trailing HTML-style
  comment wrapping a single-line JSON object''). The backend that reads the message is
  not part of \<^verbatim>\<open>ui.tsx\<close>. For the JSON text the reference is the JSON grammar
  (RFC 8259, as \<^verbatim>\<open>JSON.parse\<close> reads it), restricted to documents that are one object
  with string values: insignificant white space, string literals with every escape of
  the grammar (hexadecimal digits in either case), no raw code unit below U+0020 inside
  a string, nothing but white space after the closing brace.
\<close>

definition isWs :: "16 word \<Rightarrow> bool" where
  "isWs c = (c = 0x20 \<or> c = 0x09 \<or> c = 0x0A \<or> c = 0x0D)"

definition skipWs :: "jsstring \<Rightarrow> jsstring" where
  "skipWs s = dropWhile isWs s"

definition hexVal :: "16 word \<Rightarrow> nat option" where
  "hexVal c =
     (let n = unat c
      in if 48 \<le> n \<and> n \<le> 57 then Some (n - 48)
         else if 97 \<le> n \<and> n \<le> 102 then Some (n - 87)
         else if 65 \<le> n \<and> n \<le> 70 then Some (n - 55)
         else None)"

definition hex4 :: "16 word \<Rightarrow> 16 word \<Rightarrow> 16 word \<Rightarrow> 16 word \<Rightarrow> 16 word option" where
  "hex4 a b c d =
     (case (hexVal a, hexVal b, hexVal c, hexVal d) of
        (Some x, Some y, Some z, Some w) \<Rightarrow> Some (of_nat (x * 4096 + y * 256 + z * 16 + w))
      | _ \<Rightarrow> None)"

definition simpleEscape :: "16 word \<Rightarrow> 16 word option" where
  "simpleEscape e =
     (if e = 0x22 then Some 0x22
      else if e = 0x5C then Some 0x5C
      else if e = 0x2F then Some 0x2F
      else if e = 0x62 then Some 0x08
      else if e = 0x66 then Some 0x0C
      else if e = 0x6E then Some 0x0A
      else if e = 0x72 then Some 0x0D
      else if e = 0x74 then Some 0x09
      else None)"

definition consUnit :: "16 word \<Rightarrow> (jsstring \<times> jsstring) option \<Rightarrow> (jsstring \<times> jsstring) option" where
  "consUnit u r = (case r of None \<Rightarrow> None | Some (s, rest) \<Rightarrow> Some (u # s, rest))"

text \<open>The characters of a string literal after its opening quotation mark.\<close>

fun parseChars :: "jsstring \<Rightarrow> (jsstring \<times> jsstring) option" where
  "parseChars [] = None"
| "parseChars (c # cs) =
     (if c = 0x22 then Some ([], cs)
      else if c = 0x5C then
        (case cs of
           [] \<Rightarrow> None
         | e # es \<Rightarrow>
             if e = 0x75 then
               (case es of
                  h1 # h2 # h3 # h4 # r \<Rightarrow>
                    (case hex4 h1 h2 h3 h4 of
                       None \<Rightarrow> None
                     | Some u \<Rightarrow> consUnit u (parseChars r))
                | _ \<Rightarrow> None)
             else
               (case simpleEscape e of
                  None \<Rightarrow> None
                | Some u \<Rightarrow> consUnit u (parseChars es)))
      else if c < 0x20 then None
      else consUnit c (parseChars cs))"

definition parseString :: "jsstring \<Rightarrow> (jsstring \<times> jsstring) option" where
  "parseString s = (case s of [] \<Rightarrow> None | c # cs \<Rightarrow> if c = 0x22 then parseChars cs else None)"

text \<open>One member \<^verbatim>\<open>"key" : "value"\<close> with the white space around it.\<close>

definition parseMember :: "jsstring \<Rightarrow> ((jsstring \<times> jsstring) \<times> jsstring) option" where
  "parseMember s =
     (case parseString (skipWs s) of
        None \<Rightarrow> None
      | Some (k, r1) \<Rightarrow>
          (case skipWs r1 of
             [] \<Rightarrow> None
           | c # r2 \<Rightarrow>
               if c = 0x3A then
                 (case parseString (skipWs r2) of
                    None \<Rightarrow> None
                  | Some (v, r3) \<Rightarrow> Some ((k, v), skipWs r3))
               else None))"


text \<open>The members after the opening brace, up to and including the closing brace.\<close>

function parseMembers :: "jsstring \<Rightarrow> ((jsstring \<times> jsstring) list \<times> jsstring) option" where
  "parseMembers s =
     (case parseMember s of
        None \<Rightarrow> None
      | Some (kv, r) \<Rightarrow>
          (case r of
             [] \<Rightarrow> None
           | c # r' \<Rightarrow>
               if c = 0x7D then Some ([kv], r')
               else if c = 0x2C then
                 (case parseMembers r' of
                    None \<Rightarrow> None
                  | Some (kvs, rest) \<Rightarrow> Some (kv # kvs, rest))
               else None))"
  by pat_completeness auto
termination
proof (relation "measure length")
  show "wf (measure length)" by simp
next
  fix s :: jsstring and x kv r c r'
  assume m: "parseMember s = Some x" and x: "(kv, r) = x" and r: "r = c # r'"
  have chars: "length rest < length t" if "parseChars t = Some (u, rest)" for t u rest
    using that
  proof (induction t arbitrary: u rest rule: parseChars.induct)
    case 1
    then show ?case by simp
  next
    case (2 c cs)
    then show ?case
      by (fastforce simp: consUnit_def split: if_splits list.splits option.splits)
  qed
  have str: "length rest < length t" if "parseString t = Some (u, rest)" for t u rest
    using that chars by (fastforce simp: parseString_def split: list.splits if_splits)
  have ws: "length (skipWs t) \<le> length t" for t
    by (simp add: skipWs_def length_dropWhile_le)
  have "length r < length s"
  proof -
    from m x obtain k r1 c2 r2 v r3 where
      1: "parseString (skipWs s) = Some (k, r1)" and
      2: "skipWs r1 = c2 # r2" and
      3: "parseString (skipWs r2) = Some (v, r3)" and
      4: "r = skipWs r3"
      by (auto simp: parseMember_def split: option.splits list.splits if_splits)
    have "length r \<le> length r3" using 4 ws by simp
    also have "length r3 < length (skipWs r2)" using str [OF 3] .
    also have "length (skipWs r2) \<le> length r2" by (rule ws)
    also have "length r2 < length (skipWs r1)" using 2 by simp
    also have "length (skipWs r1) \<le> length r1" by (rule ws)
    also have "length r1 < length (skipWs s)" using str [OF 1] .
    also have "length (skipWs s) \<le> length s" by (rule ws)
    finally show ?thesis .
  qed
  then show "(r', s) \<in> measure length" using r by simp
qed

definition parseJSONObject :: "jsstring \<Rightarrow> (jsstring \<times> jsstring) list option" where
  "parseJSONObject s =
     (case skipWs s of
        [] \<Rightarrow> None
      | c # cs \<Rightarrow>
          if c \<noteq> 0x7B then None
          else
            (case skipWs cs of
               [] \<Rightarrow> None
             | d # ds \<Rightarrow>
                 if d = 0x7D then (if skipWs ds = [] then Some [] else None)
                 else
                   (case parseMembers (d # ds) of
                      None \<Rightarrow> None
                    | Some (kvs, rest) \<Rightarrow> if skipWs rest = [] then Some kvs else None)))"

text \<open>A text is on one line when it holds no line feed and no carriage return.\<close>

definition singleLine :: "jsstring \<Rightarrow> bool" where
  "singleLine s = (0x0A \<notin> set s \<and> 0x0D \<notin> set s)"

text \<open>
  Modelled from the spec: the trailing comment of a message. The comment is the last
  line of the message (what follows the last line feed); that line has to start with the
  five code units of \<^verbatim>\<open><!-- \<close> and to end with the four code units of \<^verbatim>\<open> -->\<close>, and
  what lies between them is the wrapped text. The reader takes the message alone: it does
  not know the fields, and it does not search for delimiters inside the line, so a field
  that itself contains \<^verbatim>\<open><!--\<close> or \<^verbatim>\<open>-->\<close> is read like any other.
\<close>

definition lastLine :: "jsstring \<Rightarrow> jsstring" where
  "lastLine s = rev (takeWhile (\<lambda>c. c \<noteq> 0x0A) (rev s))"

definition trailingComment :: "jsstring \<Rightarrow> jsstring option" where
  "trailingComment msg =
     (let l = lastLine msg
      in if 9 \<le> length l \<and> take 5 l = [0x3C, 0x21, 0x2D, 0x2D, 0x20]
            \<and> drop (length l - 4) l = [0x20, 0x2D, 0x2D, 0x3E]
         then Some (take (length l - 9) (drop 5 l))
         else None)"

text \<open>Reading a message: its trailing comment, on one line, parsed as a JSON object.\<close>

definition readMessage :: "jsstring \<Rightarrow> (jsstring \<times> jsstring) list option" where
  "readMessage msg =
     (case trailingComment msg of
        None \<Rightarrow> None
      | Some j \<Rightarrow> if singleLine j then parseJSONObject j else None)"


section \<open>Clarify form controller\<close>

text \<open>
  \<^verbatim>\<open>ArticleClarifyCard\<close> keeps five pieces of state (\<^verbatim>\<open>useState\<close>) and five effects
  (\<^verbatim>\<open>useEffect\<close>), each with a dependency list. React runs an effect after the first
  render and after every render in which one of its dependencies differs from the
  previous render. The card instance is the record of the props of its last render and
  its state.
\<close>

datatype clarify_status = NeedInfo | ClarifyDone | ClarifyError

record clarify_props =
  status :: clarify_status
  missing :: "jsstring list option"
  question :: "jsstring option"
  p_topic :: "jsstring option"
  p_content_format :: "jsstring option"
  p_target_audience :: "jsstring option"
  p_tone :: "jsstring option"
  tone_options :: "jsstring list option"

record clarify_card =
  props :: clarify_props
  topic :: jsstring
  contentFormat :: jsstring
  audience :: jsstring
  tone :: jsstring
  submitting :: bool


text \<open>First render: the initial states, then every effect once.\<close>

definition mount :: "clarify_props \<Rightarrow> clarify_card" where
  "mount p =
     \<lparr> props = p,
       topic = str_or (p_topic p) [],
       contentFormat = str_or (p_content_format p) [],
       audience = str_or (p_target_audience p) [],
       tone = str_or (p_tone p) [],
       submitting = False \<rparr>"


text \<open>The \<^verbatim>\<open>onChange\<close> handlers of the four controls.\<close>

definition setTopic :: "jsstring \<Rightarrow> clarify_card \<Rightarrow> clarify_card" where
  "setTopic v c = c\<lparr>topic := v\<rparr>"

definition setContentFormat :: "jsstring \<Rightarrow> clarify_card \<Rightarrow> clarify_card" where
  "setContentFormat v c = c\<lparr>contentFormat := v\<rparr>"

definition setAudience :: "jsstring \<Rightarrow> clarify_card \<Rightarrow> clarify_card" where
  "setAudience v c = c\<lparr>audience := v\<rparr>"

definition setTone :: "jsstring \<Rightarrow> clarify_card \<Rightarrow> clarify_card" where
  "setTone v c = c\<lparr>tone := v\<rparr>"

text \<open>
  \<^verbatim>\<open>
  const payload = { topic: topic || "", content_format: contentFormat || "",
                    target_audience: audience || "", tone: tone || "" };
  const payloadJson = JSON.stringify(payload);
  const displayContent = `<header>\n` + `- <l1>${payload.topic}\n` + `- <l2>${payload.content_format}\n`
    + `- <l3>${payload.target_audience}\n` + `- <l4>${payload.tone}\n\n` + `<!-- ${payloadJson} -->`;
  \<close>
\<close>

definition key_topic :: jsstring where
  "key_topic = [0x74, 0x6F, 0x70, 0x69, 0x63]"

definition key_content_format :: jsstring where
  "key_content_format =
     [0x63, 0x6F, 0x6E, 0x74, 0x65, 0x6E, 0x74, 0x5F, 0x66, 0x6F, 0x72, 0x6D, 0x61, 0x74]"

definition key_target_audience :: jsstring where
  "key_target_audience =
     [0x74, 0x61, 0x72, 0x67, 0x65, 0x74, 0x5F, 0x61, 0x75, 0x64, 0x69, 0x65, 0x6E, 0x63, 0x65]"

definition key_tone :: jsstring where
  "key_tone = [0x74, 0x6F, 0x6E, 0x65]"

definition payload :: "clarify_card \<Rightarrow> (jsstring \<times> jsstring) list" where
  "payload c =
     [(key_topic, str_or (Some (topic c)) []),
      (key_content_format, str_or (Some (contentFormat c)) []),
      (key_target_audience, str_or (Some (audience c)) []),
      (key_tone, str_or (Some (tone c)) [])]"

definition payloadJson :: "clarify_card \<Rightarrow> jsstring" where
  "payloadJson c = stringifyObject (payload c)"

definition commentOpen :: jsstring where
  "commentOpen = [0x3C, 0x21, 0x2D, 0x2D, 0x20]"

definition commentClose :: jsstring where
  "commentClose = [0x20, 0x2D, 0x2D, 0x3E]"

definition summaryText :: "clarify_card \<Rightarrow> jsstring" where
  "summaryText c =
     [0x5DF2, 0x5B8C, 0x5584, 0x6587, 0x7AE0, 0x4FE1, 0x606F, 0xFF1A, 0x0A]
     @ [0x2D, 0x20, 0x4E3B, 0x9898, 0xFF1A] @ str_or (Some (topic c)) [] @ [0x0A]
     @ [0x2D, 0x20, 0x683C, 0x5F0F, 0xFF1A] @ str_or (Some (contentFormat c)) [] @ [0x0A]
     @ [0x2D, 0x20, 0x53D7, 0x4F17, 0xFF1A] @ str_or (Some (audience c)) [] @ [0x0A]
     @ [0x2D, 0x20, 0x98CE, 0x683C, 0xFF1A] @ str_or (Some (tone c)) [] @ [0x0A, 0x0A]"

definition displayContent :: "clarify_card \<Rightarrow> jsstring" where
  "displayContent c = summaryText c @ commentOpen @ payloadJson c @ commentClose"

text \<open>
  \<^verbatim>\<open>
  const handleSubmit = () => {
    if (submitting) return;
    setSubmitting(true);
    ...
    if (streamCtx && typeof streamCtx.submit === "function") {
      try { streamCtx.submit({ messages: [newMessage] }); return; } catch {}
    }
    sendMessage(displayContent);
  };
  \<close>
  \<open>stream_submit\<close> of the host is \<open>None\<close> when there is no stream context or its
  \<^verbatim>\<open>submit\<close> is not a function.
\<close>

definition handleSubmit :: "host \<Rightarrow> clarify_card \<Rightarrow> clarify_card \<times> effect list" where
  "handleSubmit h c =
     (if submitting c then (c, [])
      else
        (let c' = c\<lparr>submitting := True\<rparr>;
             newMessage = \<lparr> role = ''user'', mtype = ''human'', content = displayContent c \<rparr>
         in case stream_submit h of
              Some Returns \<Rightarrow> (c', [StreamSubmit [newMessage]])
            | Some Throws \<Rightarrow> (c', StreamSubmit [newMessage] # sendMessage h (displayContent c))
            | None \<Rightarrow> (c', sendMessage h (displayContent c))))"


section \<open>Card registry\<close>

text \<open>The exported \<^verbatim>\<open>ComponentMap\<close> object literal, entry by entry.\<close>

datatype renderer =
    IntentRouterCard
  | ArticleWorkflowCard
  | ArticleClarifyCard
  | MCPWorkflowCard
  | SEOPlannerCard
  | SiteReportCard
  | ReportProgressCard
  | ReportChartsCard
  | ReportInsightsCard

definition ComponentMap :: "(string \<times> renderer) list" where
  "ComponentMap =
     [(''intent_router'', IntentRouterCard),
      (''article_workflow'', ArticleWorkflowCard),
      (''article_clarify'', ArticleClarifyCard),
      (''mcp_workflow'', MCPWorkflowCard),
      (''seo_planner'', SEOPlannerCard),
      (''site_report'', SiteReportCard),
      (''report_progress'', ReportProgressCard),
      (''report_charts'', ReportChartsCard),
      (''report_insights'', ReportInsightsCard),
      (''card'', IntentRouterCard)]"

text \<open>
  Modelled from the spec: the lookup \<^verbatim>\<open>lookup(key: string) -> Renderer | absent\<close>. The
  source only exports the map; the code that reads it with the key of an incoming
  message belongs to the host and is not part of \<^verbatim>\<open>ui.tsx\<close>. The lookup returns the
  map's own entry for the key, and absence otherwise.
\<close>

definition lookup :: "string \<Rightarrow> renderer option" where
  "lookup key = map_of ComponentMap key"


section \<open>Reading a trace; sample inputs\<close>

text \<open>
  The three kinds of effect of the Action Bridge: a call of a global function
  (strategy 1), an event on \<^verbatim>\<open>window\<close> (strategy 2), an action on the input element
  (strategy 3).
\<close>

fun isCall :: "effect \<Rightarrow> bool" where
  "isCall (CallGlobal _ _) = True"
| "isCall _ = False"

fun isBroadcast :: "effect \<Rightarrow> bool" where
  "isBroadcast (DispatchWindowEvent _ _) = True"
| "isBroadcast _ = False"

fun isDomEffect :: "effect \<Rightarrow> bool" where
  "isDomEffect (SetterCall _ _) = True"
| "isDomEffect (AssignValue _ _) = True"
| "isDomEffect (DispatchInputEvent _ _) = True"
| "isDomEffect (SetTimeout _ _) = True"
| "isDomEffect _ = False"

text \<open>
  The first name of a list whose global function returns, and the names whose functions
  are called: those that throw before it, then that one.
\<close>

definition dispatching :: "host \<Rightarrow> string list \<Rightarrow> string option" where
  "dispatching h fns = find (\<lambda>fn. globals h fn = Some Returns) fns"

definition invoked :: "host \<Rightarrow> string list \<Rightarrow> string list" where
  "invoked h fns =
     filter (\<lambda>fn. globals h fn = Some Throws)
       (takeWhile (\<lambda>fn. globals h fn \<noteq> Some Returns) fns)
     @ (case dispatching h fns of None \<Rightarrow> [] | Some fn \<Rightarrow> [fn])"

text \<open>A page with a text area and no global function.\<close>

definition inputHost :: host where
  "inputHost =
     \<lparr> globals = (\<lambda>fn. None),
       querySelector = (\<lambda>sel. if sel = ''textarea''
                               then Some \<lparr> tagName = ''TEXTAREA'', closest_form = None \<rparr>
                               else None),
       page_submit_button = False,
       textarea_value_setter = True,
       input_value_setter = True,
       stream_submit = None \<rparr>"

text \<open>A host that injects one send function and has no input element.\<close>

definition sendHost :: host where
  "sendHost =
     \<lparr> globals = (\<lambda>fn. if fn = ''__LANGGRAPH_SEND__'' then Some Returns else None),
       querySelector = (\<lambda>sel. None),
       page_submit_button = False,
       textarea_value_setter = True,
       input_value_setter = True,
       stream_submit = None \<rparr>"

text \<open>
  A host whose send and resume functions throw, with a text input inside a form and
  no value setter on the prototype.
\<close>

definition throwingHost :: host where
  "throwingHost =
     \<lparr> globals = (\<lambda>fn. if fn = ''sendMessage'' \<or> fn = ''resume'' then Some Throws else None),
       querySelector = (\<lambda>sel. if sel = ''textarea'' then None
                               else Some \<lparr> tagName = ''INPUT'',
                                           closest_form = Some \<lparr> has_submit_button = False,
                                                                   has_nonplain_button = False,
                                                                   has_requestSubmit = True \<rparr> \<rparr>),
       page_submit_button = False,
       textarea_value_setter = False,
       input_value_setter = False,
       stream_submit = Some Throws \<rparr>"

definition stepLabels :: "jsstring list" where
  "stepLabels =
     [[0x66, 0x65, 0x74, 0x63, 0x68],
      [0x61, 0x6E, 0x61, 0x6C, 0x79, 0x7A, 0x65],
      [0x73, 0x75, 0x6D, 0x6D, 0x61, 0x72, 0x69, 0x7A, 0x65]]"

definition sampleTask :: seo_task where
  "sampleTask =
     \<lparr> category = None, issue_type = None, title = Some [0x54],
       impact = Some 7, difficulty = Some 3, fix_action = Some Article, fix_prompt = None \<rparr>"

definition propsQ1 :: clarify_props where
  "propsQ1 =
     \<lparr> status = NeedInfo, missing = Some [[0x74, 0x6F, 0x6E, 0x65]], question = Some [0x51, 0x31],
       p_topic = Some [0x41], p_content_format = None, p_target_audience = None,
       p_tone = None, tone_options = None \<rparr>"




text \<open>
  A card whose fields hold a comment closer, a line feed, a comment opener, and a
  quotation mark with a backslash: \<^verbatim>\<open>x-->y\<close>, \<^verbatim>\<open>B\nb\<close>, \<^verbatim>\<open><!-- \<close>, \<^verbatim>\<open>"\\<close>.
\<close>

definition cardDelims :: clarify_card where
  "cardDelims =
     \<lparr> props = propsQ1,
       topic = [0x78, 0x2D, 0x2D, 0x3E, 0x79],
       contentFormat = [0x42, 0x0A, 0x62],
       audience = [0x3C, 0x21, 0x2D, 0x2D, 0x20],
       tone = [0x22, 0x5C],
       submitting = False \<rparr>"

text \<open>A card whose four fields are A, B, C and D.\<close>

definition cardABCD :: clarify_card where
  "cardABCD =
     \<lparr> props = propsQ1, topic = [0x41], contentFormat = [0x42], audience = [0x43],
       tone = [0x44], submitting = False \<rparr>"


section \<open>Progress tracker: the step rule\<close>

lemma renderSteps_nth:
  "i < length steps \<Longrightarrow> renderSteps steps a ! i = (stepState a i, steps ! i)"
  by (simp add: renderSteps_def nth_enumerate_eq)

text \<open>
  C1, as stated, fails at \<^verbatim>\<open>active_step = 0\<close>: \<^verbatim>\<open>0 || 1\<close> is \<^verbatim>\<open>1\<close>, so the first
  step is active, not pending.
\<close>

theorem progress_zero_cursor_counterexample:
  "map fst (renderSteps stepLabels (Some 0)) = [Active, Pending, Pending]"
  by (simp add: renderSteps_def stepState_def num_or_def stepLabels_def)

text \<open>
  C1 (amended). Let the cursor \<open>c\<close> be \<^verbatim>\<open>active_step\<close> when it is present and not 0,
  and 1 when it is absent or 0. For every list of steps the \<open>i\<close>-th step (1-based, here
  index \<open>i\<close> from 0, so \<open>i + 1\<close>) is done iff \<open>i + 1 < c\<close>, active iff
  \<open>i + 1 = c\<close> and pending iff \<open>i + 1 > c\<close>. Hence a cursor beyond the last step
  renders every step done, and a cursor below 1 (a negative \<^verbatim>\<open>active_step\<close>) renders
  every step pending; \<^verbatim>\<open>active_step = 0\<close> renders like 1.
\<close>

theorem progress_step_states:
  assumes "i < length steps"
  shows "let c = (case active_step of None \<Rightarrow> 1 | Some v \<Rightarrow> if v = 0 then 1 else v);
             st = fst (renderSteps steps active_step ! i)
         in (st = Done \<longleftrightarrow> of_nat (i + 1) < c) \<and>
            (st = Active \<longleftrightarrow> of_nat (i + 1) = c) \<and>
            (st = Pending \<longleftrightarrow> c < of_nat (i + 1)) \<and>
            (of_nat (length steps) < c \<longrightarrow> st = Done) \<and>
            (c < 1 \<longrightarrow> st = Pending)"
  using assms
  by (auto simp: renderSteps_nth stepState_def num_or_def Let_def split: option.splits)

theorem progress_step_states_witness:
  "(1::nat) < length stepLabels \<and>
   fst (renderSteps stepLabels (Some 2) ! 0) = Done \<and>
   fst (renderSteps stepLabels (Some 2) ! 1) = Active \<and>
   fst (renderSteps stepLabels (Some 2) ! 2) = Pending \<and>
   fst (renderSteps stepLabels None ! 0) = Active \<and>
   fst (renderSteps stepLabels (Some 4) ! 2) = Done"
proof -
  have l: "(0::nat) < length stepLabels" "(1::nat) < length stepLabels"
    "(2::nat) < length stepLabels"
    by (simp_all add: stepLabels_def)
  show ?thesis
    using l progress_step_states [OF l(1), of "Some 2"] progress_step_states [OF l(2), of "Some 2"]
      progress_step_states [OF l(3), of "Some 2"] progress_step_states [OF l(1), of None]
      progress_step_states [OF l(3), of "Some 4"]
    by (simp add: Let_def)
qed


section \<open>SEO task scale\<close>

lemma concat_replicate_single: "concat (replicate n [g]) = replicate n g"
  by (induction n) simp_all

lemma repeat_of_nat: "repeat [g] (int n) = Inr (replicate n g)"
  by (simp add: repeat_def concat_replicate_single)

text \<open>Inside the range the scale has five glyphs: \<open>n\<close> filled, then \<open>5 - n\<close> empty.\<close>

lemma renderScale_in_range:
  assumes "n \<le> 5" and "v = Some (int n) \<or> (v = None \<and> n = 0)"
  shows "renderScale v = Inr (replicate n 0x2605 @ replicate (5 - n) 0x2606)"
proof -
  have v: "int_or v 0 = int n" using assms(2) by (auto simp: int_or_def)
  have d: "5 - int n = int (5 - n)" using assms(1) by simp
  have r1: "repeat filledGlyph (int_or v 0) = Inr (replicate n 0x2605)"
    unfolding v filledGlyph_def by (rule repeat_of_nat)
  have r2: "repeat emptyGlyph (5 - int_or v 0) = Inr (replicate (5 - n) 0x2606)"
    unfolding v d emptyGlyph_def by (rule repeat_of_nat)
  show ?thesis unfolding renderScale_def r1 r2 by simp
qed

text \<open>Outside the range one of the two counts is negative and the render faults.\<close>

lemma renderScale_out_of_range:
  "n < 0 \<or> 5 < n \<Longrightarrow> renderScale (Some n) = Inl RangeError"
  by (auto simp: renderScale_def repeat_def int_or_def)

text \<open>The payload of the fix action reads neither value.\<close>

lemma fixActionDetail_ignores_scale:
  "fixActionDetail (task\<lparr>impact := x, difficulty := y\<rparr>) = fixActionDetail task"
  by (simp add: fixActionDetail_def chatMessage_def)

text \<open>
  C3. The claim asks for a scale of five glyphs clamped to 0..5, so that a task with
  \<^verbatim>\<open>impact = 7\<close> shows five filled and no empty glyph, without faulting. The code
  builds the scale from \<^verbatim>\<open>repeat(x)\<close> and \<^verbatim>\<open>repeat(5 - x)\<close> with no guard: at
  \<^verbatim>\<open>impact = 7\<close> the second count is \<^verbatim>\<open>-2\<close>, \<^verbatim>\<open>repeat\<close> raises \<^verbatim>\<open>RangeError\<close>
  and the row is not rendered.
\<close>

theorem task_scale_impact_seven_faults:
  "impact sampleTask = Some 7 \<and> renderTaskScales sampleTask = Inl RangeError"
  by (simp add: renderTaskScales_def renderScale_def repeat_def int_or_def sampleTask_def)


section \<open>Action Bridge and Resume Bridge: the order of the strategies\<close>

lemma callFirst_invoked:
  "callFirst h fns arg =
     (map (\<lambda>fn. CallGlobal fn arg) (invoked h fns), dispatching h fns \<noteq> None)"
proof (induction fns)
  case Nil
  show ?case by (simp add: invoked_def dispatching_def)
next
  case (Cons fn fns)
  show ?case
  proof (cases "globals h fn")
    case None
    with Cons show ?thesis by (simp add: invoked_def dispatching_def)
  next
    case (Some b)
    with Cons show ?thesis by (cases b) (simp_all add: invoked_def dispatching_def)
  qed
qed

lemma domInject_empty_iff:
  "(domInject h sels text = []) = (\<forall>sel\<in>set sels. querySelector h sel = None)"
  by (induction sels) (auto split: option.splits)

lemma calls_not_later:
  "filter isBroadcast (map (\<lambda>fn. CallGlobal fn arg) fns) = []"
  "filter isDomEffect (map (\<lambda>fn. CallGlobal fn arg) fns) = []"
  by (induction fns) auto

lemma dispatching_exists:
  "fn \<in> set fns \<Longrightarrow> globals h fn = Some Returns \<Longrightarrow> dispatching h fns \<noteq> None"
  by (auto simp: dispatching_def find_None_iff)

lemma dispatching_Cons:
  "dispatching h (x # xs) = (if globals h x = Some Returns then Some x else dispatching h xs)"
  by (simp add: dispatching_def)

text \<open>
  C5. For every text, if one of the probed global send functions exists on the host and
  calling it does not throw, the trace of the Action Bridge holds no event broadcast and
  no action on an input element (so no submit step is scheduled either).
\<close>

theorem sendMessage_global_stops_chain:
  assumes "fn \<in> set globalFns" and "globals h fn = Some Returns"
  shows "filter isBroadcast (sendMessage h text) = [] \<and>
         filter isDomEffect (sendMessage h text) = []"
  using dispatching_exists [OF assms]
  by (simp add: sendMessage_def callFirst_invoked calls_not_later)

theorem sendMessage_global_stops_chain_witness:
  "''__LANGGRAPH_SEND__'' \<in> set globalFns \<and>
   globals sendHost ''__LANGGRAPH_SEND__'' = Some Returns \<and>
   filter isBroadcast (sendMessage sendHost [0x68, 0x69]) = [] \<and>
   filter isDomEffect (sendMessage sendHost [0x68, 0x69]) = []"
proof -
  have a: "''__LANGGRAPH_SEND__'' \<in> set globalFns" by (simp add: globalFns_def)
  have b: "globals sendHost ''__LANGGRAPH_SEND__'' = Some Returns" by (simp add: sendHost_def)
  show ?thesis
    using a b sendMessage_global_stops_chain [OF a b, of "[0x68, 0x69]"] by simp
qed

text \<open>
  C2, as stated, fails: nothing returns after the broadcast. On a page with a text area
  and no global function, the event is dispatched and then the text area is written to
  and the submit step scheduled.
\<close>

theorem sendMessage_broadcast_then_dom_counterexample:
  "sendMessage inputHost [0x68, 0x69] =
     [DispatchWindowEvent ''langgraph:send'' (Text [0x68, 0x69]),
      SetterCall ''textarea'' [0x68, 0x69],
      DispatchInputEvent ''textarea'' ''input'',
      DispatchInputEvent ''textarea'' ''change'',
      SetTimeout 50 ''textarea'']"
  by (simp add: sendMessage_def globalFns_def selectors_def inputHost_def)

text \<open>
  C2 (amended). In the Action Bridge only a dispatching global function (strategy 1)
  ends the chain: for every text the trace is the calls of the global functions that
  throw, in order, up to the first one that returns, and nothing after that one. When
  none returns, the event broadcast (strategy 2) follows and, whether or not anyone
  listens, the direct manipulation (strategy 3) follows the broadcast; it acts exactly
  when one of the selectors finds an element.
\<close>

theorem sendMessage_chain:
  "sendMessage h text =
     map (\<lambda>fn. CallGlobal fn (Text text)) (invoked h globalFns)
     @ (case dispatching h globalFns of
          Some fn \<Rightarrow> []
        | None \<Rightarrow> DispatchWindowEvent ''langgraph:send'' (Text text)
                   # domInject h selectors text) \<and>
   (domInject h selectors text = []) = (\<forall>sel\<in>set selectors. querySelector h sel = None)"
  by (simp add: sendMessage_def callFirst_invoked domInject_empty_iff split: option.splits)

theorem sendMessage_chain_witness:
  "sendMessage throwingHost [0x68, 0x69] =
     [CallGlobal ''sendMessage'' (Text [0x68, 0x69]),
      DispatchWindowEvent ''langgraph:send'' (Text [0x68, 0x69]),
      AssignValue ''input[type=\"text\"]'' [0x68, 0x69],
      DispatchInputEvent ''input[type=\"text\"]'' ''input'',
      DispatchInputEvent ''input[type=\"text\"]'' ''change'',
      SetTimeout 50 ''input[type=\"text\"]''] \<and>
   domInject throwingHost selectors [0x68, 0x69] \<noteq> []"
  using sendMessage_chain [of throwingHost "[0x68, 0x69]"]
  by (simp add: invoked_def dispatching_def globalFns_def selectors_def throwingHost_def)

text \<open>
  C7, as stated, fails: the text fallback is not reserved for hosts without a
  structured channel, and it runs after the broadcast has been dispatched. With no
  resume function, the decision is broadcast and then also sent as text.
\<close>

theorem resumeInterrupt_broadcast_then_text_counterexample:
  "resumeInterrupt sendHost True =
     [DispatchWindowEvent ''langgraph:resume'' (Decision True),
      CallGlobal ''__LANGGRAPH_SEND__'' (Text confirmText)]"
  by (simp add: resumeInterrupt_def resumeFns_def sendMessage_def globalFns_def sendHost_def)

text \<open>
  C7 (amended). The Resume Bridge delivers the decision \<^verbatim>\<open>{confirmed: boolean}\<close> through
  an ordered chain: (1) the dedicated resume function, (2) otherwise the alternative
  resume function names in their order; the first of these that is called without
  throwing ends the chain. When none does, (3) the decision is broadcast as a named
  event and (4) the Action Bridge is then always run with the fixed confirm or cancel
  text. The broadcast does not end the chain.
\<close>

theorem resumeInterrupt_chain:
  "resumeInterrupt h confirmed =
     map (\<lambda>fn. CallGlobal fn (Decision confirmed))
       (invoked h (''__LANGGRAPH_RESUME__'' # resumeFns))
     @ (case dispatching h (''__LANGGRAPH_RESUME__'' # resumeFns) of
          Some fn \<Rightarrow> []
        | None \<Rightarrow> DispatchWindowEvent ''langgraph:resume'' (Decision confirmed)
                   # sendMessage h (if confirmed then confirmText else cancelText))"
  apply (simp add: resumeInterrupt_def callFirst_invoked dispatching_Cons split: option.splits)
  apply (auto simp: invoked_def dispatching_def split: option.splits)
  done

theorem resumeInterrupt_chain_witness:
  "resumeInterrupt throwingHost False =
     [CallGlobal ''resume'' (Decision False),
      DispatchWindowEvent ''langgraph:resume'' (Decision False),
      CallGlobal ''sendMessage'' (Text cancelText),
      DispatchWindowEvent ''langgraph:send'' (Text cancelText),
      AssignValue ''input[type=\"text\"]'' cancelText,
      DispatchInputEvent ''input[type=\"text\"]'' ''input'',
      DispatchInputEvent ''input[type=\"text\"]'' ''change'',
      SetTimeout 50 ''input[type=\"text\"]'']"
  using resumeInterrupt_chain [of throwingHost False]
  by (simp add: invoked_def dispatching_def resumeFns_def throwingHost_def sendMessage_def
      globalFns_def selectors_def)


section \<open>Clarify form: the submitting guard\<close>



text \<open>
  C10. When the guard is already true, a submit does nothing: the card is unchanged and
  the trace is empty, so no message is composed and neither the stream submit nor any
  strategy of the Action Bridge is invoked.
\<close>

theorem handleSubmit_guarded_noop:
  "submitting c \<Longrightarrow> handleSubmit h c = (c, [])"
  by (simp add: handleSubmit_def)

theorem handleSubmit_guarded_noop_witness:
  "submitting (fst (handleSubmit throwingHost (mount propsQ1))) \<and>
   handleSubmit throwingHost (fst (handleSubmit throwingHost (mount propsQ1))) =
     (fst (handleSubmit throwingHost (mount propsQ1)), [])"
proof -
  have s: "submitting (fst (handleSubmit throwingHost (mount propsQ1)))"
    by (simp add: handleSubmit_def mount_def throwingHost_def Let_def)
  show ?thesis
    using s handleSubmit_guarded_noop [OF s, of throwingHost] by simp
qed


section \<open>Clarify form: the message and its embedded JSON\<close>











































text \<open>
  The same two messages, computed: the fields A, B, C, D of the spec's example, and the
  card whose fields hold delimiters.
\<close>

lemma readMessage_example:
  "readMessage (displayContent cardABCD) =
     Some [([0x74, 0x6F, 0x70, 0x69, 0x63], [0x41]),
           ([0x63, 0x6F, 0x6E, 0x74, 0x65, 0x6E, 0x74, 0x5F, 0x66, 0x6F, 0x72, 0x6D, 0x61, 0x74],
            [0x42]),
           ([0x74, 0x61, 0x72, 0x67, 0x65, 0x74, 0x5F, 0x61, 0x75, 0x64, 0x69, 0x65, 0x6E, 0x63,
             0x65], [0x43]),
           ([0x74, 0x6F, 0x6E, 0x65], [0x44])]"
  by code_simp

lemma payloadJson_delims_example:
  "payloadJson cardDelims =
     [0x7B, 0x22, 0x74, 0x6F, 0x70, 0x69, 0x63, 0x22, 0x3A,
      0x22, 0x78, 0x2D, 0x2D, 0x3E, 0x79, 0x22,
      0x2C, 0x22, 0x63, 0x6F, 0x6E, 0x74, 0x65, 0x6E, 0x74, 0x5F, 0x66, 0x6F, 0x72, 0x6D, 0x61,
      0x74, 0x22, 0x3A, 0x22, 0x42, 0x5C, 0x6E, 0x62, 0x22,
      0x2C, 0x22, 0x74, 0x61, 0x72, 0x67, 0x65, 0x74, 0x5F, 0x61, 0x75, 0x64, 0x69, 0x65, 0x6E,
      0x63, 0x65, 0x22, 0x3A, 0x22, 0x3C, 0x21, 0x2D, 0x2D, 0x20, 0x22,
      0x2C, 0x22, 0x74, 0x6F, 0x6E, 0x65, 0x22, 0x3A, 0x22, 0x5C, 0x22, 0x5C, 0x5C, 0x22, 0x7D]"
  by code_simp

text \<open>The JSON text for the fields A, B, C, D, computed.\<close>

lemma payloadJson_example:
  "payloadJson cardABCD =
     [0x7B, 0x22, 0x74, 0x6F, 0x70, 0x69, 0x63, 0x22, 0x3A, 0x22, 0x41, 0x22,
      0x2C, 0x22, 0x63, 0x6F, 0x6E, 0x74, 0x65, 0x6E, 0x74, 0x5F, 0x66, 0x6F, 0x72, 0x6D, 0x61,
      0x74, 0x22, 0x3A, 0x22, 0x42, 0x22,
      0x2C, 0x22, 0x74, 0x61, 0x72, 0x67, 0x65, 0x74, 0x5F, 0x61, 0x75, 0x64, 0x69, 0x65, 0x6E,
      0x63, 0x65, 0x22, 0x3A, 0x22, 0x43, 0x22,
      0x2C, 0x22, 0x74, 0x6F, 0x6E, 0x65, 0x22, 0x3A, 0x22, 0x44, 0x22, 0x7D]"
  by code_simp


section \<open>Card registry: lookups\<close>

text \<open>
  C8. A key that is not a key of the registry is looked up to absence; the lookup is a
  total function into \<open>renderer option\<close>, so there is no exception to raise.
\<close>

theorem lookup_unknown_absent:
  "key \<notin> fst ` set ComponentMap \<Longrightarrow> lookup key = None"
  by (simp add: lookup_def map_of_eq_None_iff)

theorem lookup_unknown_absent_witness:
  "''nonexistent'' \<notin> fst ` set ComponentMap \<and> lookup ''nonexistent'' = None"
proof -
  have a: "''nonexistent'' \<notin> fst ` set ComponentMap" by (simp add: ComponentMap_def)
  show ?thesis using a lookup_unknown_absent [OF a] by simp
qed

text \<open>
  C9. The keys \<^verbatim>\<open>card\<close> and \<^verbatim>\<open>intent_router\<close> resolve to the same renderer, the
  Intent Router card. No key occurs twice, and without the entry for \<^verbatim>\<open>card\<close> no two
  keys share a renderer: \<^verbatim>\<open>card\<close> is the only alias.
\<close>

theorem lookup_card_alias:
  "lookup ''card'' = Some IntentRouterCard \<and>
   lookup ''intent_router'' = Some IntentRouterCard \<and>
   distinct (map fst ComponentMap) \<and>
   distinct (map snd (filter (\<lambda>e. fst e \<noteq> ''card'') ComponentMap))"
  by (simp add: lookup_def ComponentMap_def)

end
